theory Spec2Isabelle
  imports Complex_Main "HOL-Library.Word"
begin

section \<open>Reflectance recovery after Jakob and Hanika (2019)\<close>

text \<open>
  A shallow embedding of \<^verbatim>\<open>colour/recovery/jakob2019.py\<close>. Floating-point numbers are
  modelled by the real numbers they denote and every arithmetic operation is exact. Where
  numpy would produce an infinity or a NaN (a division by zero, a fractional power of a
  negative number) it only warns and carries on; the embedding stops there with the outcome
  \<open>NonFinite l\<close>, \<open>l\<close> being the source line of the operation. Python exceptions are the
  outcome \<open>Raised\<close>.
\<close>

subsection \<open>Outcomes\<close>

datatype py_exception = ValueError | IndexError | StructError | AttributeError

datatype fault = Raised py_exception | NonFinite nat

type_synonym vec3 = "real \<times> real \<times> real"

subsection \<open>Spectral shapes and distributions\<close>

record SpectralShape =
  shape_start :: real
  shape_end :: real
  shape_interval :: real

text \<open>
  Modelled from the spec: \<^verbatim>\<open>SpectralShape.range\<close> is not part of the sources. The spec
  describes it as the ordered sequence of sample wavelengths
  \<open>start, start + interval, \<dots>, end\<close> of a shape with \<open>end > start\<close> and \<open>interval > 0\<close>.
\<close>

definition shape_range :: "SpectralShape \<Rightarrow> real list" where
  "shape_range shape =
     (if 0 < shape_interval shape \<and> shape_start shape \<le> shape_end shape
      then map (\<lambda>i. shape_start shape + real i * shape_interval shape)
             [0 ..< Suc (nat \<lfloor>(shape_end shape - shape_start shape) / shape_interval shape\<rfloor>)]
      else [])"

text \<open>
  The name of a distribution is either given by the caller or formatted from the
  coefficients; the formatted text is kept as its argument.
\<close>

datatype sd_name = Named string | Jakob2019_coeffs vec3

record SpectralDistribution =
  sd_values :: "real list"
  sd_wavelengths :: "real list"
  sd_name :: sd_name

subsection \<open>The spectral model\<close>

definition spectral_model :: "vec3 \<Rightarrow> SpectralShape \<Rightarrow> sd_name option \<Rightarrow> SpectralDistribution" where
  "spectral_model coefficients shape name =
     (case coefficients of (c_0, c_1, c_2) \<Rightarrow>
        let wl = shape_range shape;
            U = map (\<lambda>w. c_0 * w ^ 2 + c_1 * w + c_2) wl;
            R = map (\<lambda>u. 1 / 2 + u / (2 * sqrt (1 + u ^ 2))) U;
            name' = (case name of None \<Rightarrow> Jakob2019_coeffs coefficients | Some n \<Rightarrow> n)
        in \<lparr>sd_values = R, sd_wavelengths = wl, sd_name = name'\<rparr>)"

subsection \<open>numpy operations used by the error function\<close>

text \<open>\<^verbatim>\<open>np.linspace(a, b, num)\<close> with its default \<^verbatim>\<open>endpoint=True\<close>.\<close>

definition linspace :: "real \<Rightarrow> real \<Rightarrow> nat \<Rightarrow> real list" where
  "linspace a b num =
     (let divisor = num - 1;
          delta = b - a;
          y = (if 0 < divisor then map (\<lambda>i. real i * (delta / real divisor)) [0 ..< num]
               else map (\<lambda>i. real i * delta) [0 ..< num]);
          y' = map (\<lambda>v. v + a) y
      in if 1 < num then y'[num - 1 := b] else y')"

definition and_then :: "fault + 'a \<Rightarrow> ('a \<Rightarrow> fault + 'b) \<Rightarrow> fault + 'b" where
  "and_then m f = (case m of Inl e \<Rightarrow> Inl e | Inr x \<Rightarrow> f x)"

text \<open>Elementwise product of two one-dimensional arrays, with numpy's broadcasting.\<close>

definition np_mul :: "real list \<Rightarrow> real list \<Rightarrow> fault + real list" where
  "np_mul xs ys =
     (if length xs = length ys then Inr (map2 (*) xs ys)
      else if length xs = 1 then Inr (map (\<lambda>y. hd xs * y) ys)
      else if length ys = 1 then Inr (map (\<lambda>x. x * hd ys) xs)
      else Inl (Raised ValueError))"

text \<open>\<^verbatim>\<open>np.dot\<close> of two one-dimensional arrays: the lengths must agree.\<close>

definition np_dot :: "real list \<Rightarrow> real list \<Rightarrow> fault + real" where
  "np_dot xs ys =
     (if length xs = length ys then Inr (sum_list (map2 (*) xs ys))
      else Inl (Raised ValueError))"

text \<open>
  Division and fractional power of numpy floats at source line \<open>l\<close>: a zero divisor gives
  an infinity or a NaN, a negative base a NaN.
\<close>

definition np_div :: "nat \<Rightarrow> real \<Rightarrow> real \<Rightarrow> fault + real" where
  "np_div l a b = (if b = 0 then Inl (NonFinite l) else Inr (a / b))"

definition np_pow :: "nat \<Rightarrow> real \<Rightarrow> real \<Rightarrow> fault + real" where
  "np_pow l x p = (if x < 0 then Inl (NonFinite l) else Inr (x powr p))"

text \<open>A loop \<^verbatim>\<open>for i in range(3)\<close> that fills a three-element array, in index order.\<close>

definition for3 :: "(nat \<Rightarrow> fault + 'a) \<Rightarrow> fault + ('a \<times> 'a \<times> 'a)" where
  "for3 f = and_then (f 0) (\<lambda>a. and_then (f 1) (\<lambda>b. and_then (f 2) (\<lambda>c. Inr (a, b, c))))"

fun at3 :: "'a \<times> 'a \<times> 'a \<Rightarrow> nat \<Rightarrow> 'a" where
  "at3 (a, b, c) i = (if i = 0 then a else if i = 1 then b else c)"

subsection \<open>Colour matching functions\<close>

record ColourMatchingFunctions =
  cmfs_values :: "vec3 list"
  cmfs_wavelengths :: "real list"
  cmfs_name :: string

definition cmfs_column :: "ColourMatchingFunctions \<Rightarrow> nat \<Rightarrow> real list" where
  "cmfs_column cmfs i = map (\<lambda>v. at3 v i) (cmfs_values cmfs)"

subsection \<open>The error function and its gradient\<close>

text \<open>
  Lines 127 to 170 of the source: reflectance over the axis normalised to \<open>[0, 1]\<close>,
  tristimulus values, \<open>Lab\<close> and the derivatives \<open>dLab\<close>. The result is
  \<open>(R, XYZ, Lab, dLab)\<close>, \<open>dLab\<close> with one row per \<open>Lab\<close> component.
\<close>

definition Lab_dLab_Jakob2019 ::
  "vec3 \<Rightarrow> SpectralShape \<Rightarrow> ColourMatchingFunctions \<Rightarrow> SpectralDistribution \<Rightarrow> vec3
   \<Rightarrow> fault + (real list \<times> vec3 \<times> vec3 \<times> (vec3 \<times> vec3 \<times> vec3))" where
  "Lab_dLab_Jakob2019 coefficients shape cmfs illuminant illuminant_XYZ =
     (case coefficients of (c_0, c_1, c_2) \<Rightarrow>
      let wv = linspace 0 1 (length (shape_range shape));
          U = map (\<lambda>w. c_0 * w ^ 2 + c_1 * w + c_2) wv;
          t1 = map (\<lambda>u. sqrt (1 + u ^ 2)) U;
          R = map2 (\<lambda>u t. 1 / 2 + u / (2 * t)) U t1;
          t2 = map2 (\<lambda>u t. 1 / (2 * t) - u ^ 2 / (2 * t ^ 3)) U t1;
          dR = (map2 (\<lambda>w t. w ^ 2 * t) wv t2, map2 (\<lambda>w t. w * t) wv t2, t2)
      in
      and_then (np_mul (sd_values illuminant) R) (\<lambda>E.
      and_then (for3 (\<lambda>j. np_mul (sd_values illuminant) (at3 dR j))) (\<lambda>dE.
      if length (cmfs_wavelengths cmfs) < 2 then Inl (Raised IndexError) else
      let dw = cmfs_wavelengths cmfs ! 1 - cmfs_wavelengths cmfs ! 0 in
      and_then (np_mul (cmfs_column cmfs 1) (sd_values illuminant)) (\<lambda>Yw.
      and_then (np_div 141 100 (sum_list Yw * dw)) (\<lambda>k.
      and_then (for3 (\<lambda>i.
        and_then (np_dot E (cmfs_column cmfs i)) (\<lambda>d.
        and_then (for3 (\<lambda>j.
          and_then (np_dot (at3 dE j) (cmfs_column cmfs i)) (\<lambda>dd. Inr (k * dd * dw)))) (\<lambda>row.
        Inr (k * d * dw, row))))) (\<lambda>X.
      let XYZ = (fst (at3 X 0), fst (at3 X 1), fst (at3 X 2));
          dXYZ = (snd (at3 X 0), snd (at3 X 1), snd (at3 X 2)) in
      and_then (for3 (\<lambda>i. np_div 151 (at3 XYZ i) (at3 illuminant_XYZ i))) (\<lambda>q.
      and_then (for3 (\<lambda>i. np_pow 151 (at3 q i) (1 / 3))) (\<lambda>f.
      and_then (for3 (\<lambda>i. for3 (\<lambda>j.
        and_then (np_pow 157 (at3 illuminant_XYZ i) (1 / 3)) (\<lambda>a.
        and_then (np_pow 157 (at3 XYZ i) (2 / 3)) (\<lambda>b.
        and_then (np_div 157 1 (3 * a * b)) (\<lambda>r.
        Inr (r * at3 (at3 dXYZ i) j))))))) (\<lambda>df.
      let Lab = (116 * at3 f 1 - 16,
                 500 * (at3 f 0 - at3 f 1),
                 200 * (at3 f 1 - at3 f 2));
          dLab = ((116 * at3 (at3 df 1) 0, 116 * at3 (at3 df 1) 1, 116 * at3 (at3 df 1) 2),
                  (500 * (at3 (at3 df 0) 0 - at3 (at3 df 1) 0),
                   500 * (at3 (at3 df 0) 1 - at3 (at3 df 1) 1),
                   500 * (at3 (at3 df 0) 2 - at3 (at3 df 1) 2)),
                  (200 * (at3 (at3 df 1) 0 - at3 (at3 df 2) 0),
                   200 * (at3 (at3 df 1) 1 - at3 (at3 df 2) 1),
                   200 * (at3 (at3 df 1) 2 - at3 (at3 df 2) 2)))
      in Inr (R, XYZ, Lab, dLab))))))))))"

text \<open>
  What the function returns: the error and its gradient, and with
  \<^verbatim>\<open>return_intermediates\<close> also \<open>R\<close>, \<open>XYZ\<close> and \<open>Lab\<close>.
\<close>

datatype error_function_result =
  Error_Gradient real vec3
| Error_Gradient_Intermediates real vec3 "real list" vec3 vec3

text \<open>Lines 172 to 186: the Euclidean distance to the target and its gradient.\<close>

definition error_function_Jakob2019 ::
  "vec3 \<Rightarrow> vec3 \<Rightarrow> SpectralShape \<Rightarrow> ColourMatchingFunctions \<Rightarrow> SpectralDistribution \<Rightarrow> vec3
   \<Rightarrow> bool \<Rightarrow> fault + error_function_result" where
  "error_function_Jakob2019 coefficients target shape cmfs illuminant illuminant_XYZ
       return_intermediates =
     and_then (Lab_dLab_Jakob2019 coefficients shape cmfs illuminant illuminant_XYZ)
       (\<lambda>(R, XYZ, Lab, dLab).
          let error = sqrt ((at3 Lab 0 - at3 target 0) ^ 2 + (at3 Lab 1 - at3 target 1) ^ 2
                            + (at3 Lab 2 - at3 target 2) ^ 2) in
          and_then (for3 (\<lambda>i.
            np_div 178
              (0 + at3 (at3 dLab 0) i * (at3 Lab 0 - at3 target 0)
                 + at3 (at3 dLab 1) i * (at3 Lab 1 - at3 target 1)
                 + at3 (at3 dLab 2) i * (at3 Lab 2 - at3 target 2))
              error)) (\<lambda>derror.
          if return_intermediates
          then Inr (Error_Gradient_Intermediates error derror R XYZ Lab)
          else Inr (Error_Gradient error derror)))"

subsection \<open>Restoring the dimensions of the coefficients\<close>

text \<open>
  The coefficients reach this function as numpy floats (the optimiser's \<^verbatim>\<open>opt.x\<close>), so a
  division by a zero span is not an exception.
\<close>

definition dimensionalise_coefficients :: "vec3 \<Rightarrow> SpectralShape \<Rightarrow> fault + vec3" where
  "dimensionalise_coefficients coefficients shape =
     (case coefficients of (cp_0, cp_1, cp_2) \<Rightarrow>
      let span = shape_end shape - shape_start shape in
      and_then (np_div 218 cp_0 (span ^ 2)) (\<lambda>c_0.
      and_then (np_div 219 cp_1 span) (\<lambda>a.
      and_then (np_div 219 (2 * cp_0 * shape_start shape) (span ^ 2)) (\<lambda>b.
      let c_1 = a - b in
      and_then (np_div 220 (cp_0 * shape_start shape ^ 2) (span ^ 2)) (\<lambda>d.
      and_then (np_div 220 (cp_1 * shape_start shape) span) (\<lambda>e.
      let c_2 = d - e + cp_2 in
      Inr (c_0, c_1, c_2)))))))"

text \<open>
  The spec's inverse transform, for comparison: the normalisation of the wavelength domain
  to \<open>[0, 1]\<close> maps dimensional coefficients to the coefficients of the same curve in
  \<open>t = (\<lambda> - start) / span\<close>, that is, it substitutes \<open>\<lambda> = start + span * t\<close>. The sources
  hold no such function.
\<close>

definition nondimensionalise_spec :: "vec3 \<Rightarrow> SpectralShape \<Rightarrow> vec3" where
  "nondimensionalise_spec coefficients shape =
     (case coefficients of (c_0, c_1, c_2) \<Rightarrow>
      let span = shape_end shape - shape_start shape;
          s = shape_start shape
      in (c_0 * span ^ 2, 2 * c_0 * s * span + c_1 * span, c_0 * s ^ 2 + c_1 * s + c_2))"

subsection \<open>The coefficient solver\<close>

text \<open>
  The solver works on objects that its caller keeps: the store maps references to
  distributions and to colour matching functions, \<open>next_sd\<close> is the first unused
  reference, and \<open>warnings\<close> collects what \<^verbatim>\<open>runtime_warning\<close> emits.
\<close>

datatype warning = Aligning_illuminant sd_name string

record store =
  sds :: "nat \<Rightarrow> SpectralDistribution"
  cmfss :: "nat \<Rightarrow> ColourMatchingFunctions"
  next_sd :: nat
  warnings :: "warning list"

text \<open>
  The collaborators that are not part of the sources are parameters: the \<^verbatim>\<open>shape\<close>
  property of both classes, what \<^verbatim>\<open>align\<close> makes of a distribution,
  \<^verbatim>\<open>sd_to_XYZ\<close>, \<^verbatim>\<open>XYZ_to_xy\<close>, \<^verbatim>\<open>XYZ_to_Lab\<close> and
  scipy's \<^verbatim>\<open>minimize\<close> with \<^verbatim>\<open>jac=True\<close>, which returns \<^verbatim>\<open>(opt.x, opt.fun)\<close> or
  passes on what the objective raised.
\<close>

record collaborators =
  sd_shape :: "SpectralDistribution \<Rightarrow> SpectralShape"
  cmfs_shape :: "ColourMatchingFunctions \<Rightarrow> SpectralShape"
  align :: "SpectralDistribution \<Rightarrow> SpectralShape \<Rightarrow> SpectralDistribution"
  sd_to_XYZ :: "SpectralDistribution \<Rightarrow> vec3"
  XYZ_to_xy :: "vec3 \<Rightarrow> real \<times> real"
  XYZ_to_Lab :: "vec3 \<Rightarrow> real \<times> real \<Rightarrow> vec3"
  minimize :: "(vec3 \<Rightarrow> fault + error_function_result) \<Rightarrow> vec3 \<Rightarrow> fault + (vec3 \<times> real)"

text \<open>\<^verbatim>\<open>sd.copy()\<close> makes a new object with the same content.\<close>

definition sd_copy :: "nat \<Rightarrow> store \<Rightarrow> nat \<times> store" where
  "sd_copy r s = (next_sd s, s\<lparr>sds := (sds s)(next_sd s := sds s r), next_sd := Suc (next_sd s)\<rparr>)"

text \<open>\<^verbatim>\<open>sd.align(shape)\<close> changes the object itself and returns it.\<close>

definition sd_align :: "collaborators \<Rightarrow> nat \<Rightarrow> SpectralShape \<Rightarrow> store \<Rightarrow> nat \<times> store" where
  "sd_align ext r shape s = (r, s\<lparr>sds := (sds s)(r := align ext (sds s r) shape)\<rparr>)"

text \<open>Lines 270 to 288: the fit, once the illuminant to use is known.\<close>

definition solve_Jakob2019 ::
  "collaborators \<Rightarrow> vec3 \<Rightarrow> nat \<Rightarrow> nat \<Rightarrow> vec3 \<Rightarrow> bool \<Rightarrow> store
   \<Rightarrow> (fault + (vec3 \<times> real)) \<times> store" where
  "solve_Jakob2019 ext target_XYZ cmfs illuminant coefficients_0 dimensionalise s =
     (let shape = sd_shape ext (sds s illuminant);
          illuminant_XYZ = (case sd_to_XYZ ext (sds s illuminant) of
                              (X, Y, Z) \<Rightarrow> (X / 100, Y / 100, Z / 100));
          illuminant_xy = XYZ_to_xy ext illuminant_XYZ;
          target = XYZ_to_Lab ext target_XYZ illuminant_xy;
          opt = minimize ext
                  (\<lambda>x. error_function_Jakob2019 x target shape (cmfss s cmfs) (sds s illuminant)
                         illuminant_XYZ False)
                  coefficients_0
      in (and_then opt (\<lambda>(opt_x, opt_fun).
            if dimensionalise
            then and_then (dimensionalise_coefficients opt_x shape) (\<lambda>c. Inr (c, opt_fun))
            else Inr (opt_x, opt_fun)),
          s))"

definition coefficients_Jakob2019 ::
  "collaborators \<Rightarrow> vec3 \<Rightarrow> nat \<Rightarrow> nat \<Rightarrow> vec3 \<Rightarrow> bool \<Rightarrow> store
   \<Rightarrow> (fault + (vec3 \<times> real)) \<times> store" where
  "coefficients_Jakob2019 ext target_XYZ cmfs illuminant coefficients_0 dimensionalise s =
     (if sd_shape ext (sds s illuminant) \<noteq> cmfs_shape ext (cmfss s cmfs)
      then
        let s1 = s\<lparr>warnings := warnings s
                      @ [Aligning_illuminant (sd_name (sds s illuminant)) (cmfs_name (cmfss s cmfs))]\<rparr>;
            (copy, s2) = sd_copy illuminant s1;
            (illuminant', s3) = sd_align ext copy (cmfs_shape ext (cmfss s2 cmfs)) s2
        in solve_Jakob2019 ext target_XYZ cmfs illuminant' coefficients_0 dimensionalise s3
      else solve_Jakob2019 ext target_XYZ cmfs illuminant coefficients_0 dimensionalise s)"

subsection \<open>The lookup table: loading\<close>

type_synonym byte = "8 word"

text \<open>\<^verbatim>\<open>fd.read(n)\<close>: at most \<open>n\<close> bytes, and the file from there on.\<close>

definition read_bytes :: "nat \<Rightarrow> byte list \<Rightarrow> byte list \<times> byte list" where
  "read_bytes n fd = (take n fd, drop n fd)"

text \<open>Native byte order is taken to be little-endian.\<close>

definition le_nat :: "byte list \<Rightarrow> nat" where
  "le_nat bs = foldr (\<lambda>b acc. unat b + 256 * acc) bs 0"

text \<open>\<^verbatim>\<open>struct.unpack('i', bs)[0]\<close>: a signed 32-bit integer from exactly four bytes.\<close>

definition unpack_i :: "byte list \<Rightarrow> fault + int" where
  "unpack_i bs =
     (if length bs \<noteq> 4 then Inl (Raised StructError)
      else let w = le_nat bs in Inr (if w < 2 ^ 31 then int w else int w - 2 ^ 32))"

text \<open>
  A 32-bit float as the file holds it: the real number it denotes, or \<open>None\<close> for an
  infinity or a NaN.
\<close>

type_synonym float32 = "real option"

text \<open>
  The value of a 32-bit float given by its bit pattern: sign, eight bits of exponent, 23 bits
  of significand.
\<close>

definition f32_value :: "nat \<Rightarrow> float32" where
  "f32_value w =
     (let sign = w div 2 ^ 31;
          e = (w div 2 ^ 23) mod 256;
          m = w mod 2 ^ 23;
          magnitude = (if e = 0 then real m * 2 / 2 ^ 150
                       else real (2 ^ 23 + m) * 2 ^ e / 2 ^ 150)
      in if e = 255 then None
         else Some (if sign = 0 then magnitude else - magnitude))"

text \<open>
  \<^verbatim>\<open>np.fromfile(fd, count=count, dtype=np.float32)\<close>: it reads as many whole items as the
  file still holds, up to \<open>count\<close> (all of them for a negative \<open>count\<close>), and returns
  fewer items than asked for without raising.
\<close>

definition fromfile_f32 :: "byte list \<Rightarrow> int \<Rightarrow> float32 list \<times> byte list" where
  "fromfile_f32 fd count =
     (let available = length fd div 4;
          n = (if count < 0 then available else min (nat count) available)
      in (map (\<lambda>i. f32_value (le_nat (take 4 (drop (4 * i) fd)))) [0 ..< n],
          if count < 0 \<or> int n = count then drop (4 * n) fd else []))"

text \<open>
  Modelled from the spec: scipy's \<^verbatim>\<open>RegularGridInterpolator\<close> is not part of the sources.
  The spec asks for multilinear interpolation of the coefficient tensor over the axes
  \<open>([0, 1, 2], scale, linspace(N), linspace(N))\<close>, with a sentinel instead of an
  extrapolation for a query out of bounds. The definitions follow scipy's algorithm: the
  constructor wants every axis strictly ascending and as long as the tensor's dimension;
  a call finds, on each axis, the cell of the coordinate and its normalised distance to the
  cell's lower edge, and adds up the values at the cell's corners weighted by the products
  of the distances. The tensor is kept flat, in row-major order, with its shape.
\<close>

record RegularGridInterpolator =
  rgi_grid :: "real list list"
  rgi_values :: "real list"
  rgi_shape :: "nat list"
  rgi_bounds_error :: bool

definition RegularGridInterpolator_init ::
  "real list list \<Rightarrow> real list \<Rightarrow> nat list \<Rightarrow> bool \<Rightarrow> fault + RegularGridInterpolator" where
  "RegularGridInterpolator_init points vals shp bounds_error =
     (if length shp < length points then Inl (Raised ValueError)
      else if \<not> list_all (successively (\<lambda>a b. 0 < b - a)) points then Inl (Raised ValueError)
      else if \<not> list_all2 (\<lambda>p n. length p = n) points (take (length points) shp)
        then Inl (Raised ValueError)
      else Inr \<lparr>rgi_grid = points, rgi_values = vals, rgi_shape = shp,
                rgi_bounds_error = bounds_error\<rparr>)"

text \<open>The interpolator object: \<^verbatim>\<open>__init__\<close> sets no attribute.\<close>

record Jakob2019Interpolator =
  res :: "int option"
  scale :: "float32 list option"
  cubes :: "RegularGridInterpolator option"

definition Jakob2019Interpolator_init :: Jakob2019Interpolator where
  "Jakob2019Interpolator_init = \<lparr>res = None, scale = None, cubes = None\<rparr>"

definition SPEC_magic :: "byte list" where
  "SPEC_magic = [0x53, 0x50, 0x45, 0x43]"

text \<open>
  \<^verbatim>\<open>from_file\<close> on the content of the file at \<^verbatim>\<open>path\<close>: what it raises, if anything, and the
  object afterwards. \<^verbatim>\<open>reshape\<close> raises unless the tensor has \<open>3 * res ^ 3 * 3\<close> items. A
  table that holds an infinity or a NaN is not followed into the interpolator.
\<close>

definition from_file :: "Jakob2019Interpolator \<Rightarrow> byte list \<Rightarrow> fault option \<times> Jakob2019Interpolator" where
  "from_file self file =
     (case read_bytes 4 file of (magic, fd1) \<Rightarrow>
      if magic \<noteq> SPEC_magic then (Some (Raised ValueError), self) else
      (case read_bytes 4 fd1 of (b, fd2) \<Rightarrow>
      (case unpack_i b of Inl e \<Rightarrow> (Some e, self) | Inr r \<Rightarrow>
      (let self1 = self\<lparr>res := Some r\<rparr> in
      (case fromfile_f32 fd2 r of (sc, fd3) \<Rightarrow>
      (let self2 = self1\<lparr>scale := Some sc\<rparr> in
      (case fromfile_f32 fd3 (3 * r ^ 3 * 3) of (coeffs, fd4) \<Rightarrow>
      if r < 0 \<or> int (length coeffs) \<noteq> 3 * r * r * r * 3 then (Some (Raised ValueError), self2)
      else if None \<in> set sc \<or> None \<in> set coeffs then (Some (NonFinite 354), self2) else
      (let samples = linspace 0 1 (nat r);
           axes = [[0, 1, 2], map the sc, samples, samples]
       in (case RegularGridInterpolator_init axes (map the coeffs) [3, nat r, nat r, nat r, 3] False of
             Inl e \<Rightarrow> (Some e, self2)
           | Inr g \<Rightarrow> (None, self2\<lparr>cubes := Some g\<rparr>))))))))))"

subsection \<open>The lookup table: queries\<close>

text \<open>
  \<^verbatim>\<open>np.searchsorted(grid, x) - 1\<close> for an ascending grid, clipped to
  \<open>[0, size - 2]\<close>: the lower edge of the cell of \<open>x\<close>. The subtraction on \<open>nat\<close>
  stops at \<open>0\<close>, which is the lower clip; the grid has two points or more.
\<close>

definition find_index :: "real list \<Rightarrow> real \<Rightarrow> nat" where
  "find_index grid x = min (length (takeWhile (\<lambda>g. g < x) grid) - 1) (length grid - 2)"

definition out_of_bounds :: "real list \<Rightarrow> real \<Rightarrow> bool" where
  "out_of_bounds grid x = (x < hd grid \<or> last grid < x)"

fun edges :: "nat list \<Rightarrow> nat list list" where
  "edges [] = [[]]"
| "edges (i # is) = map ((#) i) (edges is) @ map ((#) (Suc i)) (edges is)"

definition edge_weight :: "nat list \<Rightarrow> nat list \<Rightarrow> real list \<Rightarrow> real" where
  "edge_weight e idx y =
     prod_list (map (\<lambda>(ei, i, yi). if ei = i then 1 - yi else yi) (zip e (zip idx y)))"

definition flat_index :: "nat list \<Rightarrow> nat list \<Rightarrow> nat" where
  "flat_index shp e = foldl (\<lambda>acc (n, ei). acc * n + ei) 0 (zip shp e)"

text \<open>\<^verbatim>\<open>values[e]\<close>: the three coefficients the tensor holds at the grid node \<open>e\<close>.\<close>

definition values_at :: "RegularGridInterpolator \<Rightarrow> nat list \<Rightarrow> real list" where
  "values_at g e = map (\<lambda>l. rgi_values g ! (flat_index (rgi_shape g) e * 3 + l)) [0, 1, 2]"

definition evaluate_linear :: "RegularGridInterpolator \<Rightarrow> nat list \<Rightarrow> real list \<Rightarrow> real list" where
  "evaluate_linear g idx y =
     map (\<lambda>l. sum_list (map (\<lambda>e. values_at g e ! l * edge_weight e idx y) (edges idx)))
       [0, 1, 2]"

text \<open>
  With \<open>bounds_error\<close> set, a call first goes through the axes in order and raises at
  the first coordinate out of bounds.
\<close>

fun check_bounds :: "real list list \<Rightarrow> real list \<Rightarrow> fault option" where
  "check_bounds (grid # grids) (x # xs) =
     (if grid = [] then Some (Raised IndexError)
      else if out_of_bounds grid x then Some (Raised ValueError)
      else check_bounds grids xs)"
| "check_bounds _ _ = None"

text \<open>
  A call at one point \<open>xi\<close>. A component \<open>None\<close> of the result is the fill value, NaN. An
  axis with no point cannot be indexed; on an axis with one point the cell has no width. A
  point out of bounds is filled, whatever the interpolation gave.
\<close>

definition rgi_call :: "RegularGridInterpolator \<Rightarrow> real list \<Rightarrow> fault + real option list" where
  "rgi_call g xi =
     (if length xi \<noteq> length (rgi_grid g) then Inl (Raised ValueError)
      else if rgi_bounds_error g \<and> check_bounds (rgi_grid g) xi \<noteq> None
        then Inl (the (check_bounds (rgi_grid g) xi))
      else if list_ex (\<lambda>grid. grid = []) (rgi_grid g) then Inl (Raised IndexError)
      else if list_ex (\<lambda>(grid, x). out_of_bounds grid x) (zip (rgi_grid g) xi)
        then Inr [None, None, None]
      else if list_ex (\<lambda>grid. length grid < 2) (rgi_grid g) then Inl (NonFinite 371)
      else
        let idx = map (\<lambda>(grid, x). find_index grid x) (zip (rgi_grid g) xi);
            y = map (\<lambda>((grid, x), i). (x - grid ! i) / (grid ! Suc i - grid ! i))
                  (zip (zip (rgi_grid g) xi) idx)
        in Inr (map Some (evaluate_linear g idx y)))"

text \<open>The query of the table for one \<open>RGB\<close> triplet.\<close>

definition argmax3 :: "vec3 \<Rightarrow> nat" where
  "argmax3 v = (case v of (a, b, c) \<Rightarrow>
     if b \<le> a \<and> c \<le> a then 0 else if c \<le> b then 1 else 2)"

definition Jakob2019Interpolator_coordinates :: "vec3 \<Rightarrow> fault + real list" where
  "Jakob2019Interpolator_coordinates RGB =
     (let vmax = max (at3 RGB 0) (max (at3 RGB 1) (at3 RGB 2));
          imax = argmax3 RGB
      in and_then (for3 (\<lambda>i. np_div 361 (at3 RGB i) (vmax + 1 / 10 ^ 10))) (\<lambda>chroma.
         let v2 = at3 chroma ((imax + 2) mod 3);
             v3 = at3 chroma ((imax + 1) mod 3)
         in Inr [real imax, vmax, v2, v3]))"

definition Jakob2019Interpolator_coefficients ::
  "Jakob2019Interpolator \<Rightarrow> vec3 \<Rightarrow> fault + real option list" where
  "Jakob2019Interpolator_coefficients self RGB =
     and_then (Jakob2019Interpolator_coordinates RGB) (\<lambda>coords.
       case cubes self of
         None \<Rightarrow> Inl (Raised AttributeError)
       | Some g \<Rightarrow> rgi_call g coords)"

section \<open>Properties\<close>

text \<open>
  Claim C7. For the coefficients \<open>(0, 0, 0)\<close> and every spectral shape, the spectral model
  returns a distribution over the shape's sample wavelengths whose value is exactly
  \<open>1/2\<close> at every one of them.
\<close>

theorem spectral_model_zero_coefficients:
  "sd_values (spectral_model (0, 0, 0) shape name) = replicate (length (shape_range shape)) (1 / 2)
   \<and> sd_wavelengths (spectral_model (0, 0, 0) shape name) = shape_range shape"
  by (simp add: spectral_model_def Let_def comp_def map_replicate_const)

end
